theory Spec2Isabelle
  imports Main "HOL-Library.Sublist" "HOL-Library.Char_ord" "HOL-Library.List_Lexorder"
begin

section \<open>pypig: the model\<close>

text \<open>
  A shallow embedding of \<^verbatim>\<open>src/pypig/pypig.py\<close>. Python strings are modelled as
  \<^typ>\<open>string\<close>, Python exceptions as values of \<open>error\<close> on the left of a sum.
\<close>

datatype error = TypeError | IndexError

subsection \<open>String helpers of the Python runtime\<close>

text \<open>
  \<^verbatim>\<open>s.split(sep, maxsplit=n)\<close> for a one-character separator: cut at the leftmost
  occurrence of the separator, at most \<open>n\<close> times; the rest of the string is the last
  part. A string without the separator is returned whole, as its only part.
\<close>

fun str_split :: "char \<Rightarrow> nat \<Rightarrow> string \<Rightarrow> string list" where
  "str_split sep 0 s = [s]"
| "str_split sep (Suc n) s =
     (if sep \<in> set s
      then takeWhile (\<lambda>c. c \<noteq> sep) s # str_split sep n (tl (dropWhile (\<lambda>c. c \<noteq> sep) s))
      else [s])"

text \<open>
  \<^verbatim>\<open>s.split(sep)\<close> without a bound: a string of length \<open>k\<close> holds at most \<open>k\<close>
  separators, so the bound \<open>k\<close> never cuts the splitting short.
\<close>

definition str_split_all :: "char \<Rightarrow> string \<Rightarrow> string list" where
  "str_split_all sep s = str_split sep (length s) s"

text \<open>\<^verbatim>\<open>s.endswith(ex)\<close> and the slice \<^verbatim>\<open>s[: -len(ex)]\<close> (for a non-empty \<open>ex\<close>).\<close>

definition endswith :: "string \<Rightarrow> string \<Rightarrow> bool" where
  "endswith s ex = suffix ex s"

definition drop_last :: "nat \<Rightarrow> string \<Rightarrow> string" where
  "drop_last k s = take (length s - k) s"

text \<open>\<^verbatim>\<open>sep.join(parts)\<close>.\<close>

fun join :: "string \<Rightarrow> string list \<Rightarrow> string" where
  "join sep [] = []"
| "join sep [x] = x"
| "join sep (x # y # ys) = x @ sep @ join sep (y # ys)"

subsection \<open>The class \<^verbatim>\<open>Package\<close> and its two parsers\<close>

record Package =
  name :: string
  version :: string
  platform :: string
  python :: string
  abi :: string
  type :: string

text \<open>
  \<^verbatim>\<open>Package.__init__(self, name, version, python_tag, abi_tag, platform, filetype)\<close>,
  called with an unpacked argument tuple: any number of arguments other than six is a
  \<^verbatim>\<open>TypeError\<close>.
\<close>

definition Package_init :: "string list \<Rightarrow> error + Package" where
  "Package_init args =
     (case args of
        [nm, ver, python_tag, abi_tag, plat, filetype] \<Rightarrow>
          Inr \<lparr>name = nm, version = ver, platform = plat, python = python_tag,
               abi = abi_tag, type = filetype\<rparr>
      | _ \<Rightarrow> Inl TypeError)"

text \<open>
  \<^verbatim>\<open>tuple(s[::-1] for s in filename[::-1].split("-", maxsplit=k))[::-1]\<close>: the reversed
  filename is split from the left, every part is reversed back, and so is their order.
\<close>

definition rsplit_tags :: "nat \<Rightarrow> string \<Rightarrow> string list" where
  "rsplit_tags k filename = rev (map rev (str_split CHR ''-'' k (rev filename)))"

definition WheelPackage :: "string \<Rightarrow> error + Package" where
  "WheelPackage filename = Package_init (rsplit_tags 4 filename @ [''wheel''])"

text \<open>\<^verbatim>\<open>tags[1]\<close> on a list with a single element is an \<^verbatim>\<open>IndexError\<close>.\<close>

definition SourcePackage :: "string \<Rightarrow> error + Package" where
  "SourcePackage filename =
     (case rsplit_tags 1 filename of
        t0 # t1 # _ \<Rightarrow> Package_init [t0, t1, ''py3'', ''none'', ''any'', ''sdist'']
      | _ \<Rightarrow> Inl IndexError)"

text \<open>The number of \<open>-\<close> delimiters of a filename.\<close>

abbreviation hyphens :: "string \<Rightarrow> nat" where
  "hyphens s \<equiv> length (filter (\<lambda>c. c = CHR ''-'') s)"

subsection \<open>\<^verbatim>\<open>get_filtered_packages\<close>\<close>

text \<open>
  The parsed command line, as far as the filters read it: \<^verbatim>\<open>args.name\<close>,
  \<^verbatim>\<open>args.version\<close> (a list, from \<^verbatim>\<open>nargs="+"\<close>), \<^verbatim>\<open>args.pyver\<close> and
  \<^verbatim>\<open>args.platform\<close>; \<open>None\<close> is Python's \<^verbatim>\<open>None\<close>.
\<close>

record Args =
  args_name :: "string option"
  args_version :: "string list option"
  args_pyver :: "string option"
  args_platform :: "string option"

text \<open>
  A generator whose items are computed on demand is a list of results: an \<open>Inl\<close>
  item is the exception raised when that item is asked for. \<^verbatim>\<open>filter(pred, gen)\<close>
  tests the items that exist and lets an exception through; \<^verbatim>\<open>list(gen)\<close> stops at
  the first exception.
\<close>

definition py_filter :: "('a \<Rightarrow> bool) \<Rightarrow> (error + 'a) list \<Rightarrow> (error + 'a) list" where
  "py_filter pred gen = filter (\<lambda>x. case x of Inl e \<Rightarrow> True | Inr p \<Rightarrow> pred p) gen"

fun py_list :: "(error + 'a) list \<Rightarrow> error + 'a list" where
  "py_list [] = Inr []"
| "py_list (Inl e # gen) = Inl e"
| "py_list (Inr p # gen) = (case py_list gen of Inl e \<Rightarrow> Inl e | Inr ps \<Rightarrow> Inr (p # ps))"

text \<open>
  \<^verbatim>\<open>extensions = {".whl": WheelPackage, ".tar.gz": SourcePackage}\<close>, in insertion order,
  and the generator of lines 142 to 147: every line that ends with a known extension is
  parsed, without that extension, by the parser of the extension. The lines are the
  filenames cut out of the index listing (lines 130 to 139 of the source read them).
\<close>

definition extensions :: "(string \<times> (string \<Rightarrow> error + Package)) list" where
  "extensions = [(''.whl'', WheelPackage), (''.tar.gz'', SourcePackage)]"

definition packages_of :: "string list \<Rightarrow> (error + Package) list" where
  "packages_of lines =
     [ctor (drop_last (length ex) l). l \<leftarrow> lines, (ex, ctor) \<leftarrow> extensions, endswith l ex]"

text \<open>
  \<^verbatim>\<open>pyver_convert = lambda x: "cp{}{}".format(*x.split("."))\<close>: the format string needs
  two arguments and ignores further ones; with fewer it raises an \<^verbatim>\<open>IndexError\<close>.
\<close>

definition pyver_convert :: "string \<Rightarrow> error + string" where
  "pyver_convert x =
     (case str_split_all CHR ''.'' x of
        major # minor # _ \<Rightarrow> Inr (''cp'' @ major @ minor)
      | _ \<Rightarrow> Inl IndexError)"

text \<open>
  The predicate \<^verbatim>\<open>version_filter\<close> of lines 155 to 159; it is built only when
  \<^verbatim>\<open>args.version\<close> is a non-empty list, so that index 0 exists, and index 1 is read
  only when the length is not 1.
\<close>

definition version_filter :: "string list \<Rightarrow> Package \<Rightarrow> bool" where
  "version_filter vs x =
     (if length vs = 1 then version x = vs ! 0
      else vs ! 0 \<le> version x \<and> version x \<le> vs ! 1)"

text \<open>
  The filters of lines 151 to 170. A filter is applied when its argument is truthy:
  neither \<^verbatim>\<open>None\<close> nor empty. \<^verbatim>\<open>pyver_convert\<close> runs when the filter is set up,
  before any package is parsed, so its exception comes first.
\<close>

definition get_filtered_packages :: "Args \<Rightarrow> string list \<Rightarrow> error + Package list" where
  "get_filtered_packages args lines =
     (let packages = packages_of lines;
          packages = (case args_name args of
                        None \<Rightarrow> packages
                      | Some n \<Rightarrow> if n = [] then packages
                                  else py_filter (\<lambda>x. name x = n) packages);
          packages = (case args_version args of
                        None \<Rightarrow> packages
                      | Some vs \<Rightarrow> if vs = [] then packages
                                   else py_filter (version_filter vs) packages);
          filtered = (case args_pyver args of
                        None \<Rightarrow> Inr packages
                      | Some pv \<Rightarrow> if pv = [] then Inr packages
                                   else (case pyver_convert pv of
                                           Inl e \<Rightarrow> Inl e
                                         | Inr cpver \<Rightarrow>
                                             Inr (py_filter (\<lambda>x. python x = cpver) packages)))
      in case filtered of
           Inl e \<Rightarrow> Inl e
         | Inr packages \<Rightarrow>
             py_list (case args_platform args of
                        None \<Rightarrow> packages
                      | Some pf \<Rightarrow> if pf = [] then packages
                                   else py_filter (\<lambda>x. sublist pf (platform x)
                                                       \<or> platform x = ''any'') packages))"

subsection \<open>\<^verbatim>\<open>print_package_list\<close> and \<^verbatim>\<open>package_list\<close>\<close>

text \<open>
  What a call does to the process: it returns after writing a text to standard output,
  or it writes a text and leaves through \<^verbatim>\<open>sys.exit\<close> with a status.
\<close>

datatype outcome = Returned string | SystemExit string int

text \<open>
  \<^verbatim>\<open>attrs\<close>, each attribute name together with the field that \<^verbatim>\<open>getattr\<close> reads for
  it (all five are set by \<^verbatim>\<open>Package.__init__\<close>).
\<close>

definition attrs :: "(string \<times> (Package \<Rightarrow> string)) list" where
  "attrs = [(''name'', name), (''version'', version), (''python'', python),
            (''platform'', platform), (''type'', type)]"

text \<open>\<^verbatim>\<open>"{:>{width}}".format(s, width=wid)\<close>: pad on the left with spaces, never cut.\<close>

definition cell_format :: "nat \<Rightarrow> string \<Rightarrow> string" where
  "cell_format wid s = replicate (wid - length s) CHR '' '' @ s"

definition titlepackage :: Package where
  "titlepackage = \<lparr>name = ''name'', version = ''version'', platform = ''platform'',
                    python = ''python'', abi = ''abi'', type = ''type''\<rparr>"

definition sepackage :: Package where
  "sepackage =
     (let bar = replicate (Max (set (map (\<lambda>(x, get). length x) attrs))) CHR ''=''
      in \<lparr>name = bar, version = bar, platform = bar, python = bar, abi = bar, type = bar\<rparr>)"

text \<open>
  \<^verbatim>\<open>widths\<close> and \<^verbatim>\<open>rows\<close> of lines 116 to 123, over the list that already starts
  with the title and the separator (so every \<^verbatim>\<open>max\<close> is over a non-empty sequence).
\<close>

definition widths :: "Package list \<Rightarrow> nat list" where
  "widths packages =
     map (\<lambda>(attr, get). Max (set (map (\<lambda>pack. length (get pack)) packages))) attrs"

definition rows :: "Package list \<Rightarrow> string list" where
  "rows packages =
     map (\<lambda>pack. join '' '' (map (\<lambda>((attr, get), wid). cell_format wid (get pack))
                                  (zip attrs (widths packages))))
         packages"

definition newline :: string where
  "newline = [CHR 0x0A]"

definition print_package_list :: "Package list \<Rightarrow> outcome" where
  "print_package_list packages =
     (if packages = [] then SystemExit (''No packages found matching filters'' @ newline) 1
      else let packages = [titlepackage, sepackage] @ packages
           in Returned (join newline (rows packages) @ newline))"

definition package_list :: "Args \<Rightarrow> string list \<Rightarrow> error + outcome" where
  "package_list args lines =
     (case get_filtered_packages args lines of
        Inl e \<Rightarrow> Inl e
      | Inr packages \<Rightarrow> Inr (print_package_list packages))"

section \<open>Splitting lemmas\<close>

lemma str_split_cut:
  assumes "sep \<notin> set a"
  shows "str_split sep (Suc n) (a @ sep # b) = a # str_split sep n b"
proof -
  have tw: "takeWhile (\<lambda>c. c \<noteq> sep) (a @ sep # b) = a"
    using assms by (induction a) auto
  have dw: "dropWhile (\<lambda>c. c \<noteq> sep) (a @ sep # b) = sep # b"
    using assms by (induction a) auto
  show ?thesis by (simp add: tw dw)
qed

lemma str_split_none:
  assumes "sep \<notin> set s"
  shows "str_split sep n s = [s]"
  using assms by (cases n) simp_all

lemma str_split_length:
  "length (str_split sep n s) = Suc (min n (length (filter (\<lambda>c. c = sep) s)))"
proof (induction n arbitrary: s)
  case 0
  show ?case by simp
next
  case (Suc n)
  show ?case
  proof (cases "sep \<in> set s")
    case False
    then have "filter (\<lambda>c. c = sep) s = []"
      by (auto simp: filter_empty_conv)
    with False show ?thesis by simp
  next
    case True
    then obtain a b where s: "s = a @ sep # b" and a: "sep \<notin> set a"
      by (meson split_list_first)
    from a have fa: "filter (\<lambda>c. c = sep) a = []"
      by (auto simp: filter_empty_conv)
    show ?thesis
      unfolding s str_split_cut [OF a] using Suc.IH [of b] fa by simp
  qed
qed

lemma rsplit_tags_cut:
  assumes "CHR ''-'' \<notin> set b"
  shows "rsplit_tags (Suc k) (a @ CHR ''-'' # b) = rsplit_tags k a @ [b]"
proof -
  have r: "rev (a @ CHR ''-'' # b) = rev b @ CHR ''-'' # rev a" by simp
  have "CHR ''-'' \<notin> set (rev b)" using assms by simp
  then have "str_split CHR ''-'' (Suc k) (rev b @ CHR ''-'' # rev a)
      = rev b # str_split CHR ''-'' k (rev a)"
    by (rule str_split_cut)
  then show ?thesis
    unfolding rsplit_tags_def r by simp
qed

lemma rsplit_tags_0: "rsplit_tags 0 a = [a]"
  by (simp add: rsplit_tags_def)

lemma rsplit_tags_length:
  "length (rsplit_tags k filename) = Suc (min k (length (filter (\<lambda>c. c = CHR ''-'') filename)))"
proof -
  have "length (filter (\<lambda>c. c = CHR ''-'') (rev filename))
      = length (filter (\<lambda>c. c = CHR ''-'') filename)"
    by (simp add: rev_filter [symmetric])
  then show ?thesis
    by (simp add: rsplit_tags_def str_split_length)
qed


lemma last_hyphen:
  assumes "Suc k \<le> hyphens f"
  shows "\<exists>a b. f = a @ CHR ''-'' # b \<and> CHR ''-'' \<notin> set b \<and> k \<le> hyphens a"
proof -
  from assms have "filter (\<lambda>c. c = CHR ''-'') f \<noteq> []" by auto
  then have "CHR ''-'' \<in> set f" by (auto simp: filter_empty_conv)
  then obtain a b where f: "f = a @ CHR ''-'' # b" and b: "CHR ''-'' \<notin> set b"
    by (meson split_list_last)
  from b have "filter (\<lambda>c. c = CHR ''-'') b = []" by (auto simp: filter_empty_conv)
  with assms f have "k \<le> hyphens a" by simp
  with f b show ?thesis by blast
qed

lemma Package_init_six:
  "Package_init [a, b, c, d, e, t] =
     Inr \<lparr>name = a, version = b, platform = e, python = c, abi = d, type = t\<rparr>"
  by (simp add: Package_init_def)

lemma Package_init_fails: "length args \<noteq> 6 \<Longrightarrow> Package_init args = Inl TypeError"
  by (auto simp: Package_init_def split: list.splits)

lemma wheel_fields:
  assumes "CHR ''-'' \<notin> set ver" "CHR ''-'' \<notin> set py"
    and "CHR ''-'' \<notin> set ab" "CHR ''-'' \<notin> set plat"
  shows "WheelPackage (nm @ CHR ''-'' # ver @ CHR ''-'' # py @ CHR ''-'' # ab @ CHR ''-'' # plat)
       = Inr \<lparr>name = nm, version = ver, platform = plat, python = py, abi = ab,
              type = ''wheel''\<rparr>"
proof -
  let ?f3 = "nm @ CHR ''-'' # ver @ CHR ''-'' # py @ CHR ''-'' # ab"
  let ?f2 = "nm @ CHR ''-'' # ver @ CHR ''-'' # py"
  let ?f1 = "nm @ CHR ''-'' # ver"
  have "rsplit_tags 4 (?f3 @ CHR ''-'' # plat) = rsplit_tags 3 ?f3 @ [plat]"
    using rsplit_tags_cut [OF assms(4), of 3 ?f3] by (simp add: numeral_eq_Suc)
  also have "rsplit_tags 3 ?f3 = rsplit_tags 2 ?f2 @ [ab]"
    using rsplit_tags_cut [OF assms(3), of 2 ?f2] by (simp add: numeral_eq_Suc)
  also have "rsplit_tags 2 ?f2 = rsplit_tags 1 ?f1 @ [py]"
    using rsplit_tags_cut [OF assms(2), of 1 ?f1] by (simp add: numeral_eq_Suc)
  also have "rsplit_tags 1 ?f1 = rsplit_tags 0 nm @ [ver]"
    using rsplit_tags_cut [OF assms(1), of 0 nm] by simp
  finally have "rsplit_tags 4 (?f3 @ CHR ''-'' # plat) = [nm, ver, py, ab, plat]"
    by (simp add: rsplit_tags_0)
  then show ?thesis
    by (simp add: WheelPackage_def Package_init_six)
qed

lemma sdist_fields:
  assumes "CHR ''-'' \<notin> set ver"
  shows "SourcePackage (nm @ CHR ''-'' # ver)
       = Inr \<lparr>name = nm, version = ver, platform = ''any'', python = ''py3'', abi = ''none'',
              type = ''sdist''\<rparr>"
proof -
  have "rsplit_tags 1 (nm @ CHR ''-'' # ver) = [nm, ver]"
    using rsplit_tags_cut [OF assms, of 0 nm] by (simp add: rsplit_tags_0)
  then show ?thesis
    by (simp add: SourcePackage_def Package_init_six)
qed

lemma wheel_decomposes:
  assumes "4 \<le> hyphens f"
  shows "\<exists>nm ver py ab plat.
           f = nm @ CHR ''-'' # ver @ CHR ''-'' # py @ CHR ''-'' # ab @ CHR ''-'' # plat
         \<and> CHR ''-'' \<notin> set ver \<and> CHR ''-'' \<notin> set py
         \<and> CHR ''-'' \<notin> set ab \<and> CHR ''-'' \<notin> set plat"
proof -
  from assms have "Suc 3 \<le> hyphens f" by simp
  from last_hyphen [OF this] obtain f3 plat
    where 1: "f = f3 @ CHR ''-'' # plat" "CHR ''-'' \<notin> set plat" "3 \<le> hyphens f3" by blast
  from 1(3) have "Suc 2 \<le> hyphens f3" by simp
  from last_hyphen [OF this] obtain f2 ab
    where 2: "f3 = f2 @ CHR ''-'' # ab" "CHR ''-'' \<notin> set ab" "2 \<le> hyphens f2" by blast
  from 2(3) have "Suc 1 \<le> hyphens f2" by simp
  from last_hyphen [OF this] obtain f1 py
    where 3: "f2 = f1 @ CHR ''-'' # py" "CHR ''-'' \<notin> set py" "1 \<le> hyphens f1" by blast
  from 3(3) have "Suc 0 \<le> hyphens f1" by simp
  from last_hyphen [OF this] obtain nm ver
    where 4: "f1 = nm @ CHR ''-'' # ver" "CHR ''-'' \<notin> set ver" by blast
  have "f = nm @ CHR ''-'' # ver @ CHR ''-'' # py @ CHR ''-'' # ab @ CHR ''-'' # plat"
    by (simp add: 1(1) 2(1) 3(1) 4(1))
  with 1(2) 2(2) 3(2) 4(2) show ?thesis by blast
qed

lemma wheel_fails:
  assumes "hyphens f < 4"
  shows "WheelPackage f = Inl TypeError"
proof -
  have "length (rsplit_tags 4 f @ [''wheel'']) \<noteq> 6"
    using assms by (simp add: rsplit_tags_length)
  then show ?thesis
    unfolding WheelPackage_def by (rule Package_init_fails)
qed

lemma sdist_fails:
  assumes "CHR ''-'' \<notin> set f"
  shows "SourcePackage f = Inl IndexError"
proof -
  have "CHR ''-'' \<notin> set (rev f)" using assms by simp
  then have "rsplit_tags 1 f = [f]"
    by (simp add: rsplit_tags_def str_split_none)
  then show ?thesis by (simp add: SourcePackage_def)
qed

lemma hyphens_less_iff: "length (rsplit_tags 4 f) < 5 \<longleftrightarrow> hyphens f < 4"
  by (simp add: rsplit_tags_length) arith

section \<open>Lemmas about the filters and the table\<close>

lemma py_list_filter: "py_list (py_filter P gen) = map_sum id (filter P) (py_list gen)"
  by (induction gen rule: py_list.induct) (auto simp: py_filter_def split: sum.splits)

lemma map_sum_filter_filter:
  "map_sum id (filter P) (map_sum id (filter Q) r) = map_sum id (filter (\<lambda>x. Q x \<and> P x)) r"
  by (cases r) simp_all

lemma map_sum_filter_cong:
  "(\<And>x. P x = Q x) \<Longrightarrow> map_sum id (filter P) r = map_sum id (filter Q) r"
  by presburger

lemma py_filter_twice: "py_filter P (py_filter Q gen) = py_filter (\<lambda>x. Q x \<and> P x) gen"
  by (auto simp: py_filter_def intro!: filter_cong split: sum.splits)

lemma version_step:
  assumes "vs \<noteq> []"
  shows "get_filtered_packages (args\<lparr>args_version := Some vs\<rparr>) lines
       = map_sum id (filter (version_filter vs))
           (get_filtered_packages (args\<lparr>args_version := None\<rparr>) lines)"
  using assms
  by (auto simp: get_filtered_packages_def Let_def py_list_filter py_filter_twice
        map_sum_filter_filter
      split: option.splits sum.splits intro!: map_sum_filter_cong)

lemma pyver_step:
  assumes "pv \<noteq> []" "pyver_convert pv = Inr cpver"
  shows "get_filtered_packages (args\<lparr>args_pyver := Some pv\<rparr>) lines
       = map_sum id (filter (\<lambda>x. python x = cpver))
           (get_filtered_packages (args\<lparr>args_pyver := None\<rparr>) lines)"
  using assms
  by (auto simp: get_filtered_packages_def Let_def py_list_filter py_filter_twice
        map_sum_filter_filter
      split: option.splits sum.splits intro!: map_sum_filter_cong)

lemma platform_step:
  assumes "pf \<noteq> []"
  shows "get_filtered_packages (args\<lparr>args_platform := Some pf\<rparr>) lines
       = map_sum id (filter (\<lambda>x. sublist pf (platform x) \<or> platform x = ''any''))
           (get_filtered_packages (args\<lparr>args_platform := None\<rparr>) lines)"
  using assms
  by (auto simp: get_filtered_packages_def Let_def py_list_filter py_filter_twice
        map_sum_filter_filter
      split: option.splits sum.splits intro!: map_sum_filter_cong)

lemma name_step:
  assumes "n \<noteq> []"
  shows "get_filtered_packages (args\<lparr>args_name := Some n\<rparr>) lines
       = map_sum id (filter (\<lambda>x. name x = n))
           (get_filtered_packages (args\<lparr>args_name := None\<rparr>) lines)"
  using assms
  by (auto simp: get_filtered_packages_def Let_def py_list_filter py_filter_twice
        map_sum_filter_filter
      split: option.splits sum.splits intro!: map_sum_filter_cong)

lemma empty_steps:
  "get_filtered_packages (args\<lparr>args_name := Some []\<rparr>) lines
     = get_filtered_packages (args\<lparr>args_name := None\<rparr>) lines"
  "get_filtered_packages (args\<lparr>args_pyver := Some []\<rparr>) lines
     = get_filtered_packages (args\<lparr>args_pyver := None\<rparr>) lines"
  "get_filtered_packages (args\<lparr>args_platform := Some []\<rparr>) lines
     = get_filtered_packages (args\<lparr>args_platform := None\<rparr>) lines"
  by (simp_all add: get_filtered_packages_def cong: option.case_cong sum.case_cong)

lemma pyver_convert_dotted:
  assumes "CHR ''.'' \<notin> set X" "CHR ''.'' \<notin> set Y"
  shows "pyver_convert (X @ CHR ''.'' # Y) = Inr (''cp'' @ X @ Y)"
proof -
  have "str_split_all CHR ''.'' (X @ CHR ''.'' # Y)
      = str_split CHR ''.'' (Suc (length X + length Y)) (X @ CHR ''.'' # Y)"
    by (simp add: str_split_all_def)
  also have "\<dots> = X # str_split CHR ''.'' (length X + length Y) Y"
    using assms(1) by (rule str_split_cut)
  also have "\<dots> = [X, Y]"
    using assms(2) by (simp add: str_split_none)
  finally show ?thesis
    by (simp add: pyver_convert_def)
qed

lemma wheel_tags:
  assumes "CHR ''-'' \<notin> set ver" "CHR ''-'' \<notin> set py"
    and "CHR ''-'' \<notin> set ab" "CHR ''-'' \<notin> set plat"
  shows "rsplit_tags 4 (nm @ CHR ''-'' # ver @ CHR ''-'' # py @ CHR ''-'' # ab @ CHR ''-'' # plat)
       = [nm, ver, py, ab, plat]"
proof -
  let ?f3 = "nm @ CHR ''-'' # ver @ CHR ''-'' # py @ CHR ''-'' # ab"
  let ?f2 = "nm @ CHR ''-'' # ver @ CHR ''-'' # py"
  let ?f1 = "nm @ CHR ''-'' # ver"
  have "rsplit_tags 4 (?f3 @ CHR ''-'' # plat) = rsplit_tags 3 ?f3 @ [plat]"
    using rsplit_tags_cut [OF assms(4), of 3 ?f3] by (simp add: numeral_eq_Suc)
  also have "rsplit_tags 3 ?f3 = rsplit_tags 2 ?f2 @ [ab]"
    using rsplit_tags_cut [OF assms(3), of 2 ?f2] by (simp add: numeral_eq_Suc)
  also have "rsplit_tags 2 ?f2 = rsplit_tags 1 ?f1 @ [py]"
    using rsplit_tags_cut [OF assms(2), of 1 ?f1] by (simp add: numeral_eq_Suc)
  also have "rsplit_tags 1 ?f1 = rsplit_tags 0 nm @ [ver]"
    using rsplit_tags_cut [OF assms(1), of 0 nm] by simp
  finally show ?thesis
    by (simp add: rsplit_tags_0)
qed

lemma sdist_tags:
  assumes "CHR ''-'' \<notin> set ver"
  shows "rsplit_tags 1 (nm @ CHR ''-'' # ver) = [nm, ver]"
  using rsplit_tags_cut [OF assms, of 0 nm] by (simp add: rsplit_tags_0)

lemma wheel_record:
  assumes "WheelPackage f = Inr p"
  shows "\<exists>nm ver py ab plat.
           f = nm @ CHR ''-'' # ver @ CHR ''-'' # py @ CHR ''-'' # ab @ CHR ''-'' # plat
         \<and> CHR ''-'' \<notin> set ver \<and> CHR ''-'' \<notin> set py
         \<and> CHR ''-'' \<notin> set ab \<and> CHR ''-'' \<notin> set plat
         \<and> rsplit_tags 4 f = [nm, ver, py, ab, plat]
         \<and> p = \<lparr>name = nm, version = ver, platform = plat, python = py, abi = ab,
                type = ''wheel''\<rparr>"
proof -
  have "\<not> hyphens f < 4"
    using assms wheel_fails [of f] by auto
  then have "4 \<le> hyphens f" by simp
  from wheel_decomposes [OF this] obtain nm ver py ab plat
    where f: "f = nm @ CHR ''-'' # ver @ CHR ''-'' # py @ CHR ''-'' # ab @ CHR ''-'' # plat"
      and h: "CHR ''-'' \<notin> set ver" "CHR ''-'' \<notin> set py"
        "CHR ''-'' \<notin> set ab" "CHR ''-'' \<notin> set plat"
    by blast
  from wheel_fields [OF h, of nm] assms f
  have p: "p = \<lparr>name = nm, version = ver, platform = plat, python = py, abi = ab,
              type = ''wheel''\<rparr>"
    by simp
  from wheel_tags [OF h, of nm] f
  have "rsplit_tags 4 f = [nm, ver, py, ab, plat]" by simp
  with f h p show ?thesis by blast
qed

lemma sdist_record:
  assumes "SourcePackage f = Inr p"
  shows "\<exists>nm ver. f = nm @ CHR ''-'' # ver \<and> CHR ''-'' \<notin> set ver
         \<and> rsplit_tags 1 f = [nm, ver]
         \<and> p = \<lparr>name = nm, version = ver, platform = ''any'', python = ''py3'',
                abi = ''none'', type = ''sdist''\<rparr>"
proof -
  have "CHR ''-'' \<in> set f"
    using assms sdist_fails [of f] by auto
  then obtain nm ver where f: "f = nm @ CHR ''-'' # ver" and h: "CHR ''-'' \<notin> set ver"
    by (meson split_list_last)
  from sdist_fields [OF h, of nm] assms f
  have p: "p = \<lparr>name = nm, version = ver, platform = ''any'', python = ''py3'',
              abi = ''none'', type = ''sdist''\<rparr>"
    by simp
  from sdist_tags [OF h, of nm] f
  have "rsplit_tags 1 f = [nm, ver]" by simp
  with f h p show ?thesis by blast
qed

lemma sepackage_bar:
  "sepackage = \<lparr>name = ''========'', version = ''========'', platform = ''========'',
                python = ''========'', abi = ''========'', type = ''========''\<rparr>"
  by code_simp

lemma widths_table:
  "widths (titlepackage # sepackage # packages) =
     [Max ({length ''name'', 8} \<union> (\<lambda>pack. length (name pack)) ` set packages),
      Max ({length ''version'', 8} \<union> (\<lambda>pack. length (version pack)) ` set packages),
      Max ({length ''python'', 8} \<union> (\<lambda>pack. length (python pack)) ` set packages),
      Max ({length ''platform'', 8} \<union> (\<lambda>pack. length (platform pack)) ` set packages),
      Max ({length ''type'', 8} \<union> (\<lambda>pack. length (type pack)) ` set packages)]"
  by (simp add: widths_def attrs_def titlepackage_def sepackage_bar eval_nat_numeral)

lemma rows_table:
  assumes "widths packages = [w1, w2, w3, w4, w5]"
  shows "rows packages =
     map (\<lambda>pack. cell_format w1 (name pack) @ '' '' @ cell_format w2 (version pack) @ '' ''
              @ cell_format w3 (python pack) @ '' '' @ cell_format w4 (platform pack) @ '' ''
              @ cell_format w5 (type pack)) packages"
  by (simp add: rows_def assms attrs_def)

lemma Max_cell:
  assumes "pack \<in> set (titlepackage # sepackage # packages)"
    and "length (get titlepackage) = h" and "length (get sepackage) = 8"
  shows "length (get pack) \<le> Max ({h, 8} \<union> (\<lambda>pack. length (get pack)) ` set packages)"
proof -
  have "length (get pack) \<in> {h, 8} \<union> (\<lambda>pack. length (get pack)) ` set packages"
    using assms by auto
  then show ?thesis by (intro Max_ge) simp_all
qed

section \<open>The filename parser\<close>

text \<open>
  C1. A wheel filename (without its extension) that ends in four \<open>-\<close>-free fields, each
  preceded by a \<open>-\<close>, is parsed into the record whose name is everything before the
  fourth-from-last \<open>-\<close> (hyphens inside the name are kept), whose version, python tag,
  abi tag and platform are the last four fields in that order, and whose type is
  \<open>wheel\<close>.
\<close>

theorem WheelPackage_right_split:
  assumes "CHR ''-'' \<notin> set ver" and "CHR ''-'' \<notin> set py"
    and "CHR ''-'' \<notin> set ab" and "CHR ''-'' \<notin> set plat"
  shows "WheelPackage (nm @ ''-'' @ ver @ ''-'' @ py @ ''-'' @ ab @ ''-'' @ plat)
       = Inr \<lparr>name = nm, version = ver, platform = plat, python = py, abi = ab,
              type = ''wheel''\<rparr>"
  using wheel_fields [OF assms] by simp

theorem WheelPackage_right_split_witness:
  "CHR ''-'' \<notin> set ''0.5.3'' \<and> CHR ''-'' \<notin> set ''cp38'' \<and> CHR ''-'' \<notin> set ''none''
   \<and> CHR ''-'' \<notin> set ''linux_x86_64''
   \<and> WheelPackage ''pytket-qiskit-0.5.3-cp38-none-linux_x86_64''
     = Inr \<lparr>name = ''pytket-qiskit'', version = ''0.5.3'', platform = ''linux_x86_64'',
            python = ''cp38'', abi = ''none'', type = ''wheel''\<rparr>"
proof -
  have h: "CHR ''-'' \<notin> set ''0.5.3''" "CHR ''-'' \<notin> set ''cp38''"
    "CHR ''-'' \<notin> set ''none''" "CHR ''-'' \<notin> set ''linux_x86_64''"
    by simp_all
  show ?thesis
    using h WheelPackage_right_split [OF h, of "''pytket-qiskit''"] by simp
qed

text \<open>
  C2. A source-distribution filename (without its extension) is cut at its last \<open>-\<close>:
  the \<open>-\<close>-free text after it is the version, everything before it (hyphens included)
  is the name, and the other fields are the constants \<open>py3\<close>, \<open>none\<close>, \<open>any\<close> and
  \<open>sdist\<close>.
\<close>

theorem SourcePackage_right_split:
  assumes "CHR ''-'' \<notin> set ver"
  shows "SourcePackage (nm @ ''-'' @ ver)
       = Inr \<lparr>name = nm, version = ver, platform = ''any'', python = ''py3'', abi = ''none'',
              type = ''sdist''\<rparr>"
  using sdist_fields [OF assms] by simp

theorem SourcePackage_right_split_witness:
  "CHR ''-'' \<notin> set ''0.4.1''
   \<and> SourcePackage ''pytket-qiskit-0.4.1''
     = Inr \<lparr>name = ''pytket-qiskit'', version = ''0.4.1'', platform = ''any'',
            python = ''py3'', abi = ''none'', type = ''sdist''\<rparr>"
proof -
  have h: "CHR ''-'' \<notin> set ''0.4.1''" by simp
  show ?thesis
    using h SourcePackage_right_split [OF h, of "''pytket-qiskit''"] by simp
qed

text \<open>
  C3. The parsers fail exactly outside their grammars. The wheel parser raises (the
  \<^verbatim>\<open>TypeError\<close> of the constructor call, which is the failure the specification names
  ParseError) exactly when the right-to-left split gives fewer than five parts, that is
  when the filename has fewer than four \<open>-\<close>; the source-distribution parser raises (an
  \<^verbatim>\<open>IndexError\<close>) exactly when the filename has no \<open>-\<close>. A failure is never a record,
  and every other input gives a record.
\<close>

theorem parser_fails_exactly_outside_grammar:
  "(WheelPackage f = Inl TypeError \<longleftrightarrow> length (rsplit_tags 4 f) < 5)
   \<and> (length (rsplit_tags 4 f) < 5 \<longleftrightarrow> hyphens f < 4)
   \<and> ((\<exists>p. WheelPackage f = Inr p) \<longleftrightarrow> \<not> length (rsplit_tags 4 f) < 5)
   \<and> (SourcePackage f = Inl IndexError \<longleftrightarrow> CHR ''-'' \<notin> set f)
   \<and> ((\<exists>p. SourcePackage f = Inr p) \<longleftrightarrow> CHR ''-'' \<in> set f)"
proof -
  have wheel_ok: "\<exists>p. WheelPackage f = Inr p" if "\<not> hyphens f < 4"
  proof -
    from that have "4 \<le> hyphens f" by simp
    from wheel_decomposes [OF this] wheel_fields show ?thesis by metis
  qed
  have sdist_ok: "\<exists>p. SourcePackage f = Inr p" if "CHR ''-'' \<in> set f"
  proof -
    from that obtain a b where "f = a @ CHR ''-'' # b" "CHR ''-'' \<notin> set b"
      by (meson split_list_last)
    with sdist_fields show ?thesis by metis
  qed
  have w1: "WheelPackage f = Inl TypeError \<longleftrightarrow> hyphens f < 4"
    using wheel_ok wheel_fails by (cases "hyphens f < 4") auto
  have w2: "(\<exists>p. WheelPackage f = Inr p) \<longleftrightarrow> \<not> hyphens f < 4"
    using wheel_ok wheel_fails by (cases "hyphens f < 4") auto
  have s1: "SourcePackage f = Inl IndexError \<longleftrightarrow> CHR ''-'' \<notin> set f"
    using sdist_ok sdist_fails by (cases "CHR ''-'' \<in> set f") auto
  have s2: "(\<exists>p. SourcePackage f = Inr p) \<longleftrightarrow> CHR ''-'' \<in> set f"
    using sdist_ok sdist_fails by (cases "CHR ''-'' \<in> set f") auto
  show ?thesis
    unfolding hyphens_less_iff using w1 w2 s1 s2 by blast
qed

theorem parser_fails_exactly_outside_grammar_witness:
  "WheelPackage ''pytket-0.5.3-cp38-none'' = Inl TypeError
   \<and> length (rsplit_tags 4 ''pytket-0.5.3-cp38-none'') < 5
   \<and> SourcePackage ''pytket'' = Inl IndexError
   \<and> (\<exists>p. SourcePackage ''pytket-0.5.3'' = Inr p)"
proof -
  have "length (rsplit_tags 4 ''pytket-0.5.3-cp38-none'') < 5"
    by (simp add: rsplit_tags_length)
  moreover have "CHR ''-'' \<notin> set ''pytket''" "CHR ''-'' \<in> set ''pytket-0.5.3''"
    by simp_all
  ultimately show ?thesis
    using parser_fails_exactly_outside_grammar [of "''pytket-0.5.3-cp38-none''"]
      parser_fails_exactly_outside_grammar [of "''pytket''"]
      parser_fails_exactly_outside_grammar [of "''pytket-0.5.3''"]
    by blast
qed

text \<open>
  C4, as stated, fails: the parsers check no field for emptiness. A wheel filename that
  starts with \<open>-\<close> gives a record with an empty name, and a source-distribution
  filename that ends with \<open>-\<close> gives one with an empty version.
\<close>

theorem parsed_fields_counterexample:
  "WheelPackage ''-0.5.3-cp38-none-any''
     = Inr \<lparr>name = [], version = ''0.5.3'', platform = ''any'', python = ''cp38'',
            abi = ''none'', type = ''wheel''\<rparr>
   \<and> SourcePackage ''pytket-''
     = Inr \<lparr>name = ''pytket'', version = [], platform = ''any'', python = ''py3'',
            abi = ''none'', type = ''sdist''\<rparr>"
  by code_simp

text \<open>
  C4, amended. Every record that a parser produces has a non-empty type: \<open>wheel\<close> from
  the wheel parser, \<open>sdist\<close> from the source-distribution parser, whose python tag, abi
  tag and platform are the constants \<open>py3\<close>, \<open>none\<close> and \<open>any\<close>. Its other fields
  are, in order, the parts of the right-to-left split of the filename (five parts for a
  wheel, two for a source distribution): joined by \<open>-\<close> they give the filename back,
  and every part but the name is free of \<open>-\<close>. The name, version, python tag, abi tag
  and platform of the record are all non-empty if and only if none of these parts is
  empty.
\<close>

theorem parsed_fields_nonempty:
  assumes "WheelPackage f = Inr p \<or> SourcePackage f = Inr p"
  shows "type p \<noteq> []
   \<and> (WheelPackage f = Inr p \<longrightarrow>
        type p = ''wheel''
        \<and> rsplit_tags 4 f = [name p, version p, python p, abi p, platform p]
        \<and> f = join ''-'' [name p, version p, python p, abi p, platform p]
        \<and> CHR ''-'' \<notin> set (version p) \<and> CHR ''-'' \<notin> set (python p)
        \<and> CHR ''-'' \<notin> set (abi p) \<and> CHR ''-'' \<notin> set (platform p)
        \<and> ((name p \<noteq> [] \<and> version p \<noteq> [] \<and> python p \<noteq> [] \<and> abi p \<noteq> []
             \<and> platform p \<noteq> [])
            \<longleftrightarrow> [] \<notin> set (rsplit_tags 4 f)))
   \<and> (SourcePackage f = Inr p \<longrightarrow>
        type p = ''sdist'' \<and> python p = ''py3'' \<and> abi p = ''none'' \<and> platform p = ''any''
        \<and> rsplit_tags 1 f = [name p, version p]
        \<and> f = join ''-'' [name p, version p]
        \<and> CHR ''-'' \<notin> set (version p)
        \<and> ((name p \<noteq> [] \<and> version p \<noteq> [] \<and> python p \<noteq> [] \<and> abi p \<noteq> []
             \<and> platform p \<noteq> [])
            \<longleftrightarrow> [] \<notin> set (rsplit_tags 1 f)))"
  using assms
proof
  assume "WheelPackage f = Inr p"
  from wheel_record [OF this] obtain nm ver py ab plat
    where f: "f = nm @ CHR ''-'' # ver @ CHR ''-'' # py @ CHR ''-'' # ab @ CHR ''-'' # plat"
      and h: "CHR ''-'' \<notin> set ver" "CHR ''-'' \<notin> set py"
        "CHR ''-'' \<notin> set ab" "CHR ''-'' \<notin> set plat"
      and t: "rsplit_tags 4 f = [nm, ver, py, ab, plat]"
      and p: "p = \<lparr>name = nm, version = ver, platform = plat, python = py, abi = ab,
                   type = ''wheel''\<rparr>"
    by blast
  have not_sdist: "SourcePackage f \<noteq> Inr p"
    using sdist_record [of f p] p by auto
  have j: "f = join ''-'' [name p, version p, python p, abi p, platform p]"
    by (simp add: f p)
  have e: "(name p \<noteq> [] \<and> version p \<noteq> [] \<and> python p \<noteq> [] \<and> abi p \<noteq> []
             \<and> platform p \<noteq> [])
            \<longleftrightarrow> [] \<notin> set (rsplit_tags 4 f)"
    unfolding t by (auto simp: p)
  have t': "rsplit_tags 4 f = [name p, version p, python p, abi p, platform p]"
    unfolding t by (simp add: p)
  have h': "CHR ''-'' \<notin> set (version p)" "CHR ''-'' \<notin> set (python p)"
    "CHR ''-'' \<notin> set (abi p)" "CHR ''-'' \<notin> set (platform p)"
    using h by (simp_all add: p)
  have ty: "type p = ''wheel''" by (simp add: p)
  from ty have ne: "type p \<noteq> []" by simp
  from ne ty t' j h' e not_sdist show ?thesis by blast
next
  assume "SourcePackage f = Inr p"
  from sdist_record [OF this] obtain nm ver
    where f: "f = nm @ CHR ''-'' # ver" and h: "CHR ''-'' \<notin> set ver"
      and t: "rsplit_tags 1 f = [nm, ver]"
      and p: "p = \<lparr>name = nm, version = ver, platform = ''any'', python = ''py3'',
                   abi = ''none'', type = ''sdist''\<rparr>"
    by blast
  have not_wheel: "WheelPackage f \<noteq> Inr p"
    using wheel_record [of f p] p by auto
  have j: "f = join ''-'' [name p, version p]"
    by (simp add: f p)
  have e: "(name p \<noteq> [] \<and> version p \<noteq> [] \<and> python p \<noteq> [] \<and> abi p \<noteq> []
             \<and> platform p \<noteq> [])
            \<longleftrightarrow> [] \<notin> set (rsplit_tags 1 f)"
    unfolding t by (auto simp: p)
  have t': "rsplit_tags 1 f = [name p, version p]"
    unfolding t by (simp add: p)
  have h': "CHR ''-'' \<notin> set (version p)"
    using h by (simp add: p)
  have c: "type p = ''sdist''" "python p = ''py3''" "abi p = ''none''" "platform p = ''any''"
    by (simp_all add: p)
  from c(1) have ne: "type p \<noteq> []" by simp
  from ne c t' j h' e not_wheel show ?thesis by blast
qed

theorem parsed_fields_nonempty_witness:
  "WheelPackage ''a--b-1-py3-none-any''
     = Inr \<lparr>name = ''a--b'', version = ''1'', platform = ''any'', python = ''py3'',
            abi = ''none'', type = ''wheel''\<rparr>
   \<and> rsplit_tags 4 ''a--b-1-py3-none-any'' = [''a--b'', ''1'', ''py3'', ''none'', ''any'']
   \<and> [] \<notin> set (rsplit_tags 4 ''a--b-1-py3-none-any'')
   \<and> WheelPackage ''-0.5.3-cp38-none-any''
     = Inr \<lparr>name = [], version = ''0.5.3'', platform = ''any'', python = ''cp38'',
            abi = ''none'', type = ''wheel''\<rparr>
   \<and> [] \<in> set (rsplit_tags 4 ''-0.5.3-cp38-none-any'')
   \<and> SourcePackage ''pytket-qiskit-0.4.1''
     = Inr \<lparr>name = ''pytket-qiskit'', version = ''0.4.1'', platform = ''any'',
            python = ''py3'', abi = ''none'', type = ''sdist''\<rparr>
   \<and> [] \<notin> set (rsplit_tags 1 ''pytket-qiskit-0.4.1'')"
proof -
  let ?f = "''a--b-1-py3-none-any''"
  let ?p = "\<lparr>name = ''a--b'', version = ''1'', platform = ''any'', python = ''py3'',
            abi = ''none'', type = ''wheel''\<rparr>"
  let ?g = "''-0.5.3-cp38-none-any''"
  let ?q = "\<lparr>name = [], version = ''0.5.3'', platform = ''any'', python = ''cp38'',
            abi = ''none'', type = ''wheel''\<rparr>"
  let ?s = "''pytket-qiskit-0.4.1''"
  let ?r = "\<lparr>name = ''pytket-qiskit'', version = ''0.4.1'', platform = ''any'',
            python = ''py3'', abi = ''none'', type = ''sdist''\<rparr>"
  have w: "WheelPackage ?f = Inr ?p" by code_simp
  have v: "WheelPackage ?g = Inr ?q" by code_simp
  have u: "SourcePackage ?s = Inr ?r" by code_simp
  from w have 1: "WheelPackage ?f = Inr ?p \<or> SourcePackage ?f = Inr ?p" ..
  from v have 2: "WheelPackage ?g = Inr ?q \<or> SourcePackage ?g = Inr ?q" ..
  from u have 3: "WheelPackage ?s = Inr ?r \<or> SourcePackage ?s = Inr ?r" ..
  from parsed_fields_nonempty [OF 1] parsed_fields_nonempty [OF 2]
    parsed_fields_nonempty [OF 3] w v u
  show ?thesis by simp
qed

section \<open>The package filter\<close>

text \<open>
  C5. Whatever the other filters are, a version filter with one value keeps exactly the
  records whose version is that value, and one with two values \<open>[low, high]\<close> keeps
  exactly the records with \<open>low \<le> version \<le> high\<close> in the lexicographic order of
  strings, both ends included. For the range \<open>0.5.2\<close> to \<open>0.5.4\<close>, version
  \<open>0.5.3\<close> passes and \<open>0.5.5\<close> does not; the order is the one of strings, not of
  version numbers (\<open>0.5.10\<close> lies between \<open>0.5.1\<close> and \<open>0.5.2\<close>).
\<close>

theorem version_filter_exact_or_range:
  "get_filtered_packages (args\<lparr>args_version := Some [v]\<rparr>) lines
     = map_sum id (filter (\<lambda>x. version x = v))
         (get_filtered_packages (args\<lparr>args_version := None\<rparr>) lines)
   \<and> get_filtered_packages (args\<lparr>args_version := Some [low, high]\<rparr>) lines
     = map_sum id (filter (\<lambda>x. low \<le> version x \<and> version x \<le> high))
         (get_filtered_packages (args\<lparr>args_version := None\<rparr>) lines)
   \<and> version_filter [''0.5.2'', ''0.5.4''] (p\<lparr>version := ''0.5.3''\<rparr>)
   \<and> \<not> version_filter [''0.5.2'', ''0.5.4''] (p\<lparr>version := ''0.5.5''\<rparr>)
   \<and> version_filter [''0.5.1'', ''0.5.2''] (p\<lparr>version := ''0.5.10''\<rparr>)"
proof -
  have one: "version_filter [v] = (\<lambda>x. version x = v)"
    by (simp add: version_filter_def fun_eq_iff)
  have two: "version_filter [low, high] = (\<lambda>x. low \<le> version x \<and> version x \<le> high)"
    by (simp add: version_filter_def fun_eq_iff)
  have a: "get_filtered_packages (args\<lparr>args_version := Some [v]\<rparr>) lines
     = map_sum id (filter (\<lambda>x. version x = v))
         (get_filtered_packages (args\<lparr>args_version := None\<rparr>) lines)"
    using version_step [of "[v]" args lines] by (simp add: one)
  have b: "get_filtered_packages (args\<lparr>args_version := Some [low, high]\<rparr>) lines
     = map_sum id (filter (\<lambda>x. low \<le> version x \<and> version x \<le> high))
         (get_filtered_packages (args\<lparr>args_version := None\<rparr>) lines)"
    using version_step [of "[low, high]" args lines] by (simp add: two)
  have c: "version_filter [''0.5.2'', ''0.5.4''] (p\<lparr>version := ''0.5.3''\<rparr>)"
    by (simp add: version_filter_def)
  have d: "\<not> version_filter [''0.5.2'', ''0.5.4''] (p\<lparr>version := ''0.5.5''\<rparr>)"
    by (simp add: version_filter_def)
  have e: "version_filter [''0.5.1'', ''0.5.2''] (p\<lparr>version := ''0.5.10''\<rparr>)"
    by (simp add: version_filter_def)
  from a b c d e show ?thesis by blast
qed

theorem version_filter_exact_or_range_witness:
  "get_filtered_packages
     \<lparr>args_name = None, args_version = Some [''0.5.2'', ''0.5.4''], args_pyver = None,
      args_platform = None\<rparr>
     [''pytket-0.5.3.tar.gz'', ''pytket-0.5.5.tar.gz'']
   = Inr [\<lparr>name = ''pytket'', version = ''0.5.3'', platform = ''any'', python = ''py3'',
            abi = ''none'', type = ''sdist''\<rparr>]"
proof -
  let ?args = "\<lparr>args_name = None, args_version = None, args_pyver = None,
                 args_platform = None\<rparr>"
  let ?lines = "[''pytket-0.5.3.tar.gz'', ''pytket-0.5.5.tar.gz'']"
  have all: "get_filtered_packages ?args ?lines
     = Inr [\<lparr>name = ''pytket'', version = ''0.5.3'', platform = ''any'', python = ''py3'',
              abi = ''none'', type = ''sdist''\<rparr>,
            \<lparr>name = ''pytket'', version = ''0.5.5'', platform = ''any'', python = ''py3'',
              abi = ''none'', type = ''sdist''\<rparr>]"
    by code_simp
  show ?thesis
    using version_filter_exact_or_range
        [where args = ?args and lines = ?lines and low = "''0.5.2''" and high = "''0.5.4''"]
    by (simp add: all)
qed

text \<open>
  C6. A python version \<open>X.Y\<close> (neither part holds a dot) is converted to the tag
  \<open>cp\<close> followed by \<open>X\<close> and \<open>Y\<close>, and the filter keeps exactly the records whose
  python tag is that tag, whatever the other filters are. With the two listing entries
  \<open>pytket-0.5.3-cp38-none-linux_x86_64.whl\<close> and \<open>pytket-0.5.3.tar.gz\<close>, the name
  \<open>pytket\<close> and the python version \<open>3.8\<close> select the wheel alone, with tag
  \<open>cp38\<close>.
\<close>

theorem pyver_filter_tag:
  assumes "CHR ''.'' \<notin> set X" and "CHR ''.'' \<notin> set Y"
  shows "pyver_convert (X @ ''.'' @ Y) = Inr (''cp'' @ X @ Y)
   \<and> get_filtered_packages (args\<lparr>args_pyver := Some (X @ ''.'' @ Y)\<rparr>) lines
     = map_sum id (filter (\<lambda>x. python x = ''cp'' @ X @ Y))
         (get_filtered_packages (args\<lparr>args_pyver := None\<rparr>) lines)
   \<and> get_filtered_packages
       \<lparr>args_name = Some ''pytket'', args_version = None, args_pyver = Some ''3.8'',
        args_platform = None\<rparr>
       [''pytket-0.5.3-cp38-none-linux_x86_64.whl'', ''pytket-0.5.3.tar.gz'']
     = Inr [\<lparr>name = ''pytket'', version = ''0.5.3'', platform = ''linux_x86_64'',
              python = ''cp38'', abi = ''none'', type = ''wheel''\<rparr>]"
proof -
  have conv: "pyver_convert (X @ CHR ''.'' # Y) = Inr (''cp'' @ X @ Y)"
    using assms by (rule pyver_convert_dotted)
  have "get_filtered_packages (args\<lparr>args_pyver := Some (X @ CHR ''.'' # Y)\<rparr>) lines
     = map_sum id (filter (\<lambda>x. python x = ''cp'' @ X @ Y))
         (get_filtered_packages (args\<lparr>args_pyver := None\<rparr>) lines)"
    using conv by (intro pyver_step) simp_all
  moreover have "get_filtered_packages
       \<lparr>args_name = Some ''pytket'', args_version = None, args_pyver = Some ''3.8'',
        args_platform = None\<rparr>
       [''pytket-0.5.3-cp38-none-linux_x86_64.whl'', ''pytket-0.5.3.tar.gz'']
     = Inr [\<lparr>name = ''pytket'', version = ''0.5.3'', platform = ''linux_x86_64'',
              python = ''cp38'', abi = ''none'', type = ''wheel''\<rparr>]"
    by code_simp
  ultimately show ?thesis using conv by simp
qed

theorem pyver_filter_tag_witness:
  "CHR ''.'' \<notin> set ''3'' \<and> CHR ''.'' \<notin> set ''8''
   \<and> pyver_convert ''3.8'' = Inr ''cp38''
   \<and> get_filtered_packages
       \<lparr>args_name = Some ''pytket'', args_version = None, args_pyver = Some ''3.8'',
        args_platform = None\<rparr>
       [''pytket-0.5.3-cp38-none-linux_x86_64.whl'', ''pytket-0.5.3.tar.gz'']
     = map_sum id (filter (\<lambda>x. python x = ''cp38''))
         (get_filtered_packages
            \<lparr>args_name = Some ''pytket'', args_version = None, args_pyver = None,
             args_platform = None\<rparr>
            [''pytket-0.5.3-cp38-none-linux_x86_64.whl'', ''pytket-0.5.3.tar.gz''])"
proof -
  have h: "CHR ''.'' \<notin> set ''3''" "CHR ''.'' \<notin> set ''8''" by simp_all
  show ?thesis
    using h pyver_filter_tag [OF h,
        where args = "\<lparr>args_name = Some ''pytket'', args_version = None, args_pyver = None,
             args_platform = None\<rparr>"
          and lines = "[''pytket-0.5.3-cp38-none-linux_x86_64.whl'', ''pytket-0.5.3.tar.gz'']"]
    by simp
qed

text \<open>
  C7. For every platform filter value, a record passes the platform filter if and only if
  the value is a substring of its platform or its platform is \<open>any\<close> (the empty value,
  a substring of everything, filters nothing). A source distribution, whose platform is
  \<open>any\<close>, passes every platform filter value.
\<close>

theorem platform_filter_substring_or_any:
  "get_filtered_packages (args\<lparr>args_platform := Some pf\<rparr>) lines
     = map_sum id (filter (\<lambda>x. sublist pf (platform x) \<or> platform x = ''any''))
         (get_filtered_packages (args\<lparr>args_platform := None\<rparr>) lines)
   \<and> get_filtered_packages
       \<lparr>args_name = None, args_version = None, args_pyver = None, args_platform = Some pf\<rparr>
       [''pytket-0.5.3.tar.gz'']
     = Inr [\<lparr>name = ''pytket'', version = ''0.5.3'', platform = ''any'', python = ''py3'',
              abi = ''none'', type = ''sdist''\<rparr>]"
proof -
  have gen: "get_filtered_packages (a\<lparr>args_platform := Some pf\<rparr>) ls
     = map_sum id (filter (\<lambda>x. sublist pf (platform x) \<or> platform x = ''any''))
         (get_filtered_packages (a\<lparr>args_platform := None\<rparr>) ls)" for a ls
  proof (cases "pf = []")
    case True
    have "map_sum id (filter (\<lambda>x. sublist pf (platform x) \<or> platform x = ''any'')) r = r"
      for r :: "error + Package list"
      using True by (cases r) simp_all
    with True show ?thesis by (simp add: empty_steps(3))
  next
    case False
    then show ?thesis by (rule platform_step)
  qed
  let ?args = "\<lparr>args_name = None, args_version = None, args_pyver = None,
                 args_platform = None\<rparr>"
  have all: "get_filtered_packages ?args [''pytket-0.5.3.tar.gz'']
     = Inr [\<lparr>name = ''pytket'', version = ''0.5.3'', platform = ''any'', python = ''py3'',
              abi = ''none'', type = ''sdist''\<rparr>]"
    by code_simp
  have "get_filtered_packages
       \<lparr>args_name = None, args_version = None, args_pyver = None, args_platform = Some pf\<rparr>
       [''pytket-0.5.3.tar.gz'']
     = Inr [\<lparr>name = ''pytket'', version = ''0.5.3'', platform = ''any'', python = ''py3'',
              abi = ''none'', type = ''sdist''\<rparr>]"
    using gen [of ?args "[''pytket-0.5.3.tar.gz'']"] by (simp add: all)
  with gen show ?thesis by blast
qed

theorem platform_filter_substring_or_any_witness:
  "get_filtered_packages
     \<lparr>args_name = None, args_version = None, args_pyver = None,
      args_platform = Some ''linux''\<rparr>
     [''pytket-0.5.3-cp38-none-manylinux1_x86_64.whl'',
      ''pytket-0.5.3-cp38-none-macosx_10_9_x86_64.whl'', ''pytket-0.5.3.tar.gz'']
   = Inr [\<lparr>name = ''pytket'', version = ''0.5.3'', platform = ''manylinux1_x86_64'',
            python = ''cp38'', abi = ''none'', type = ''wheel''\<rparr>,
          \<lparr>name = ''pytket'', version = ''0.5.3'', platform = ''any'', python = ''py3'',
            abi = ''none'', type = ''sdist''\<rparr>]"
proof -
  let ?args = "\<lparr>args_name = None, args_version = None, args_pyver = None,
                 args_platform = None\<rparr>"
  let ?lines = "[''pytket-0.5.3-cp38-none-manylinux1_x86_64.whl'',
      ''pytket-0.5.3-cp38-none-macosx_10_9_x86_64.whl'', ''pytket-0.5.3.tar.gz'']"
  have all: "get_filtered_packages ?args ?lines
     = Inr [\<lparr>name = ''pytket'', version = ''0.5.3'', platform = ''manylinux1_x86_64'',
            python = ''cp38'', abi = ''none'', type = ''wheel''\<rparr>,
          \<lparr>name = ''pytket'', version = ''0.5.3'', platform = ''macosx_10_9_x86_64'',
            python = ''cp38'', abi = ''none'', type = ''wheel''\<rparr>,
          \<lparr>name = ''pytket'', version = ''0.5.3'', platform = ''any'', python = ''py3'',
            abi = ''none'', type = ''sdist''\<rparr>]"
    by code_simp
  have s1: "sublist ''linux'' ''manylinux1_x86_64''" by code_simp
  have s2: "\<not> sublist ''linux'' ''macosx_10_9_x86_64''" by code_simp
  show ?thesis
    using platform_filter_substring_or_any
        [where args = ?args and pf = "''linux''" and lines = ?lines]
    by (simp add: all s1 s2)
qed

text \<open>
  C10. The test that switches a filter on is truthiness: an empty name, python version or
  platform behaves exactly as the filter left unset, and with all three empty every
  parsed package is returned.
\<close>

theorem empty_filter_is_unset:
  "get_filtered_packages (args\<lparr>args_name := Some []\<rparr>) lines
     = get_filtered_packages (args\<lparr>args_name := None\<rparr>) lines
   \<and> get_filtered_packages (args\<lparr>args_pyver := Some []\<rparr>) lines
     = get_filtered_packages (args\<lparr>args_pyver := None\<rparr>) lines
   \<and> get_filtered_packages (args\<lparr>args_platform := Some []\<rparr>) lines
     = get_filtered_packages (args\<lparr>args_platform := None\<rparr>) lines
   \<and> get_filtered_packages
       \<lparr>args_name = Some [], args_version = None, args_pyver = Some [],
        args_platform = Some []\<rparr> lines
     = py_list (packages_of lines)"
proof -
  have "get_filtered_packages
       \<lparr>args_name = Some [], args_version = None, args_pyver = Some [],
        args_platform = Some []\<rparr> lines
     = py_list (packages_of lines)"
    by (simp add: get_filtered_packages_def)
  with empty_steps [of args lines] show ?thesis by simp
qed

theorem empty_filter_is_unset_witness:
  "get_filtered_packages
     \<lparr>args_name = Some [], args_version = None, args_pyver = Some [],
      args_platform = Some []\<rparr>
     [''pytket-0.5.3-cp38-none-linux_x86_64.whl'', ''pytket-0.5.3.tar.gz'']
   = Inr [\<lparr>name = ''pytket'', version = ''0.5.3'', platform = ''linux_x86_64'',
            python = ''cp38'', abi = ''none'', type = ''wheel''\<rparr>,
          \<lparr>name = ''pytket'', version = ''0.5.3'', platform = ''any'', python = ''py3'',
            abi = ''none'', type = ''sdist''\<rparr>]"
proof -
  have "py_list (packages_of
          [''pytket-0.5.3-cp38-none-linux_x86_64.whl'', ''pytket-0.5.3.tar.gz''])
   = Inr [\<lparr>name = ''pytket'', version = ''0.5.3'', platform = ''linux_x86_64'',
            python = ''cp38'', abi = ''none'', type = ''wheel''\<rparr>,
          \<lparr>name = ''pytket'', version = ''0.5.3'', platform = ''any'', python = ''py3'',
            abi = ''none'', type = ''sdist''\<rparr>]"
    by code_simp
  then show ?thesis
    using empty_filter_is_unset
      [where lines = "[''pytket-0.5.3-cp38-none-linux_x86_64.whl'', ''pytket-0.5.3.tar.gz'']"]
    by simp
qed

section \<open>Listing\<close>

text \<open>
  C8. On no packages at all, \<^verbatim>\<open>print_package_list\<close> writes the line
  \<open>No packages found matching filters\<close> and nothing else, and leaves with exit status
  1; so does \<^verbatim>\<open>package_list\<close> whenever the filters leave no record. A table is
  written, and the call returns, exactly for a non-empty list.
\<close>

theorem empty_result_exits:
  "print_package_list [] = SystemExit (''No packages found matching filters'' @ newline) 1
   \<and> (get_filtered_packages args lines = Inr [] \<longrightarrow>
        package_list args lines
          = Inr (SystemExit (''No packages found matching filters'' @ newline) 1))
   \<and> ((\<exists>out. print_package_list packages = Returned out) \<longleftrightarrow> packages \<noteq> [])"
  by (simp add: print_package_list_def package_list_def Let_def)

theorem empty_result_exits_witness:
  "get_filtered_packages
     \<lparr>args_name = Some ''numpy'', args_version = None, args_pyver = None,
      args_platform = None\<rparr> [''pytket-0.5.3.tar.gz''] = Inr []
   \<and> package_list
     \<lparr>args_name = Some ''numpy'', args_version = None, args_pyver = None,
      args_platform = None\<rparr> [''pytket-0.5.3.tar.gz'']
     = Inr (SystemExit (''No packages found matching filters'' @ newline) 1)"
proof -
  have h: "get_filtered_packages
     \<lparr>args_name = Some ''numpy'', args_version = None, args_pyver = None,
      args_platform = None\<rparr> [''pytket-0.5.3.tar.gz''] = Inr []"
    by code_simp
  show ?thesis
    using h empty_result_exits
      [where args = "\<lparr>args_name = Some ''numpy'', args_version = None, args_pyver = None,
            args_platform = None\<rparr>" and lines = "[''pytket-0.5.3.tar.gz'']"]
    by simp
qed

text \<open>
  C9, as stated, fails: the separator is a row of its own values, eight \<open>=\<close> in every
  column, and it counts when the column widths are taken. For one record with short
  fields every column is 8 wide, wider than its header and its value: 8 against 4, 7, 6,
  8 and 5.
\<close>

theorem table_width_counterexample:
  "print_package_list
     [\<lparr>name = ''a'', version = ''1'', platform = ''any'', python = ''py3'', abi = ''none'',
       type = ''sdist''\<rparr>]
   = Returned (''    name  version   python platform     type'' @ newline
               @ ''======== ======== ======== ======== ========'' @ newline
               @ ''       a        1      py3      any    sdist'' @ newline)
   \<and> widths [titlepackage, sepackage,
        \<lparr>name = ''a'', version = ''1'', platform = ''any'', python = ''py3'', abi = ''none'',
          type = ''sdist''\<rparr>] = [8, 8, 8, 8, 8]
   \<and> [max (length ''name'') (length ''a''), max (length ''version'') (length ''1''),
       max (length ''python'') (length ''py3''), max (length ''platform'') (length ''any''),
       max (length ''type'') (length ''sdist'')] = [4, 7, 6, 8, 5]"
  by code_simp

text \<open>
  C9, amended. For a non-empty list of records the output is the header row (name,
  version, python, platform, type), then the separator row, whose cell in every column
  is eight \<open>=\<close>, then one row per record; the cells of a row are separated by one
  space, and every cell of a column is padded with spaces on the left to the width of the
  column, which is the greatest length among the header text, the eight-character
  separator cell and the values of the records in that column (so no column is narrower
  than 8, and no cell is longer than its column).
\<close>

theorem table_layout:
  assumes "packages \<noteq> []"
  shows "let wd = (\<lambda>header get.
                     Max ({length header, 8} \<union> (\<lambda>pack. length (get pack)) ` set packages));
             cell = (\<lambda>wid s. replicate (wid - length s) CHR '' '' @ s);
             line = (\<lambda>pack. cell (wd ''name'' name) (name pack) @ '' ''
                           @ cell (wd ''version'' version) (version pack) @ '' ''
                           @ cell (wd ''python'' python) (python pack) @ '' ''
                           @ cell (wd ''platform'' platform) (platform pack) @ '' ''
                           @ cell (wd ''type'' type) (type pack));
             header = \<lparr>name = ''name'', version = ''version'', platform = ''platform'',
                       python = ''python'', abi = ''abi'', type = ''type''\<rparr>;
             separator = \<lparr>name = ''========'', version = ''========'',
                          platform = ''========'', python = ''========'',
                          abi = ''========'', type = ''========''\<rparr>
         in print_package_list packages
              = Returned (join newline (line header # line separator # map line packages)
                          @ newline)
          \<and> (\<forall>pack \<in> set (header # separator # packages).
                length (name pack) \<le> wd ''name'' name
              \<and> length (version pack) \<le> wd ''version'' version
              \<and> length (python pack) \<le> wd ''python'' python
              \<and> length (platform pack) \<le> wd ''platform'' platform
              \<and> length (type pack) \<le> wd ''type'' type)"
proof -
  note w = widths_table [of packages]
  have out: "print_package_list packages
     = Returned (join newline (rows (titlepackage # sepackage # packages)) @ newline)"
    using assms by (simp add: print_package_list_def)
  have fits: "length (get pack)
        \<le> Max ({h, 8} \<union> (\<lambda>pack. length (get pack)) ` set packages)"
    if "pack \<in> set (titlepackage # sepackage # packages)"
      and "length (get titlepackage) = h" and "length (get sepackage) = 8"
    for pack h and get :: "Package \<Rightarrow> string"
    using that by (rule Max_cell)
  have bound: "length (name pack)
          \<le> Max ({length ''name'', 8} \<union> (\<lambda>pack. length (name pack)) ` set packages)
      \<and> length (version pack)
          \<le> Max ({length ''version'', 8} \<union> (\<lambda>pack. length (version pack)) ` set packages)
      \<and> length (python pack)
          \<le> Max ({length ''python'', 8} \<union> (\<lambda>pack. length (python pack)) ` set packages)
      \<and> length (platform pack)
          \<le> Max ({length ''platform'', 8} \<union> (\<lambda>pack. length (platform pack)) ` set packages)
      \<and> length (type pack)
          \<le> Max ({length ''type'', 8} \<union> (\<lambda>pack. length (type pack)) ` set packages)"
    if "pack \<in> set (titlepackage # sepackage # packages)" for pack
    by (intro conjI fits [OF that]) (simp_all add: titlepackage_def sepackage_bar)
  show ?thesis
    unfolding Let_def out rows_table [OF w] cell_format_def
    using bound
    by (simp add: titlepackage_def sepackage_bar)
qed

theorem table_layout_witness:
  "[\<lparr>name = ''pytket-qiskit'', version = ''0.4.1'', platform = ''any'', python = ''py3'',
      abi = ''none'', type = ''sdist''\<rparr>] \<noteq> []
   \<and> print_package_list
       [\<lparr>name = ''pytket-qiskit'', version = ''0.4.1'', platform = ''any'', python = ''py3'',
         abi = ''none'', type = ''sdist''\<rparr>]
     = Returned (''         name  version   python platform     type'' @ newline
                 @ ''     ======== ======== ======== ======== ========'' @ newline
                 @ ''pytket-qiskit    0.4.1      py3      any    sdist'' @ newline)"
proof -
  let ?ps = "[\<lparr>name = ''pytket-qiskit'', version = ''0.4.1'', platform = ''any'',
               python = ''py3'', abi = ''none'', type = ''sdist''\<rparr>]"
  have h: "?ps \<noteq> []" by simp
  show ?thesis
    using table_layout [OF h] by (simp add: Let_def eval_nat_numeral)
qed

end
